theory Spec2Isabelle
  imports Complex_Main "HOL-Library.AList"
begin

section \<open>Values, dictionaries and the launcher object\<close>

text \<open>
  The values that travel through the launcher are the ones \<open>json.load\<close> produces and
  the page's script sends: \<open>None\<close>, booleans, integers, strings, lists and
  dictionaries with string keys (a configuration file holding a floating-point
  number is outside the model). A dictionary is the list of its items in insertion
  order; \<open>d[k] = v\<close> is \<open>AList.update k v d\<close> (replace in place, or append a new key)
  and \<open>d[k]\<close> is \<open>map_of d k\<close>.
\<close>

datatype pyval =
    PNone
  | PBool bool
  | PInt int
  | PStr string
  | PList "pyval list"
  | PDict "(string \<times> pyval) list"

type_synonym dict = "(string \<times> pyval) list"

text \<open>\<open>{**a, **b}\<close>: the items of \<open>b\<close> are stored into a copy of \<open>a\<close>, one after the other.\<close>

definition dict_merge :: "dict \<Rightarrow> dict \<Rightarrow> dict" where
  "dict_merge a b = foldl (\<lambda>d (k, v). AList.update k v d) a b"

text \<open>\<open>type(v).__name__\<close>, as it appears in the messages of Python's exceptions.\<close>

fun type_name :: "pyval \<Rightarrow> string" where
  "type_name PNone = ''NoneType''"
| "type_name (PBool _) = ''bool''"
| "type_name (PInt _) = ''int''"
| "type_name (PStr _) = ''str''"
| "type_name (PList _) = ''list''"
| "type_name (PDict _) = ''dict''"

text \<open>An exception is its class and \<open>str(e)\<close>, the text the handlers print.\<close>

datatype exn_class =
  LibraryError | OSError | TypeError | KeyError | AttributeError | OverflowError
  | ZeroDivisionError | ValueError

datatype exn = Exn exn_class string

fun str_exn :: "exn \<Rightarrow> string" where
  "str_exn (Exn c m) = m"

datatype outcome = Done | Raised exn

text \<open>
  What \<open>json.load\<close> makes of the configuration file: it raises (the file cannot be
  opened, is not JSON, or holds an integer of more than 4300 digits), or it returns a
  value.
\<close>

datatype stored = Unloadable | Json pyval

text \<open>
  The calls sent to the page through \<open>window.evaluate_js\<close>, each with the values the
  source interpolates into the script text.
\<close>

datatype js_call =
    UpdateStatus string
  | UpdateProgress int int int
  | LoadHistory pyval

record options =
  opt_username :: string
  opt_uuid :: string
  opt_token :: string
  jvmArguments :: "string list"

text \<open>What the launcher does to the world outside, in the order it does it.\<close>

datatype effect =
    Js js_call
  | Wrote dict
  | Print string
  | Removed
  | ThreadStart string string "int option"
  | GetCommand string options
  | Popen "string list"

text \<open>
  The object of class \<open>MinecraftLauncher\<close> (\<open>window\<close> is whether \<open>self.window\<close> is set),
  together with the part of the world it acts on: the configuration file
  (\<open>None\<close> when it does not exist), whether writing or removing that file fails
  (with the text of the error), and the effects so far.
\<close>

record launcher =
  window :: bool
  max_value :: int
  current_progress :: int
  config :: dict
  config_file :: "stored option"
  write_error :: "string option"
  remove_error :: "string option"
  trace :: "effect list"

section \<open>Integers as text\<close>

text \<open>The decimal digits of a natural number.\<close>

function str_nat :: "nat \<Rightarrow> string" where
  "str_nat n =
     (if n < 10 then [char_of (48 + n)]
      else str_nat (n div 10) @ [char_of (48 + n mod 10)])"
  by pat_completeness auto
termination
  by (relation "measure id") auto

declare str_nat.simps [simp del]

text \<open>
  CPython refuses to turn an integer of more than 4300 digits (the sign not counted)
  into text: \<open>str\<close>, an f-string and \<open>json.dump\<close> raise \<open>ValueError\<close>, and so does
  \<open>json.load\<close> on such a literal. \<open>decimal\<close> is the text of an integer that is short
  enough, \<open>str_int\<close> is \<open>str(n)\<close> as the code runs it.
\<close>

definition int_max_str_digits :: nat where
  "int_max_str_digits = 4300"

definition too_long :: "int \<Rightarrow> bool" where
  "too_long i \<longleftrightarrow> int_max_str_digits < length (str_nat (nat \<bar>i\<bar>))"

definition value_error :: exn where
  "value_error =
     Exn ValueError
       (''Exceeds the limit (4300 digits) for integer string conversion; ''
        @ ''use sys.set_int_max_str_digits() to increase the limit'')"

definition decimal :: "int \<Rightarrow> string" where
  "decimal i = (if i < 0 then CHR ''-'' # str_nat (nat (- i)) else str_nat (nat i))"

definition str_int :: "int \<Rightarrow> exn + string" where
  "str_int i = (if too_long i then Inl value_error else Inr (decimal i))"

text \<open>\<open>json.dump\<close> renders every integer inside the value it writes.\<close>

fun dumpable :: "pyval \<Rightarrow> bool" where
  "dumpable (PInt i) = (\<not> too_long i)"
| "dumpable (PList xs) = list_all dumpable xs"
| "dumpable (PDict kvs) = list_all (\<lambda>kv. dumpable (snd kv)) kvs"
| "dumpable _ = True"

section \<open>Configuration\<close>

definition default_config :: dict where
  "default_config =
     [(''last_username'', PStr ''''),
      (''ram_allocation'', PInt 2),
      (''theme'', PStr ''purple''),
      (''dark_mode'', PBool True),
      (''tutorial_shown'', PBool False),
      (''launch_history'', PList [])]"

text \<open>
  \<open>load_config\<close>: the defaults when the file is absent or loading it raises; \<open>**\<close> of a
  value that is not a dictionary raises \<open>TypeError\<close>, which the bare \<open>except\<close> turns
  into the defaults as well.
\<close>

definition load_config :: "launcher \<Rightarrow> dict" where
  "load_config s =
     (case config_file s of
        None \<Rightarrow> default_config
      | Some Unloadable \<Rightarrow> default_config
      | Some (Json (PDict stored)) \<Rightarrow> dict_merge default_config stored
      | Some (Json _) \<Rightarrow> default_config)"

text \<open>
  \<open>save_config\<close>: the whole dictionary replaces the file. When opening the file for
  writing raises, the file stays as it was. When \<open>json.dump\<close> raises on an integer too
  long to render, the file is already open: it is left with the text written so far,
  which is not JSON. Either error is printed and goes no further.
\<close>

definition save_config :: "launcher \<Rightarrow> launcher" where
  "save_config s =
     (case write_error s of
        Some m \<Rightarrow> s\<lparr>trace := trace s @ [Print (''Error saving config: '' @ m)]\<rparr>
      | None \<Rightarrow>
          if dumpable (PDict (config s))
          then s\<lparr>config_file := Some (Json (PDict (config s))),
                 trace := trace s @ [Wrote (config s)]\<rparr>
          else s\<lparr>config_file := Some Unloadable,
                 trace := trace s @
                   [Print (''Error saving config: '' @ str_exn value_error)]\<rparr>)"

definition update_username :: "string \<Rightarrow> launcher \<Rightarrow> launcher" where
  "update_username username s =
     save_config (s\<lparr>config := AList.update ''last_username'' (PStr username) (config s)\<rparr>)"

text \<open>The RAM value is an integer, or \<open>None\<close> when the page sent \<open>null\<close>.\<close>

fun ram_val :: "int option \<Rightarrow> pyval" where
  "ram_val None = PNone"
| "ram_val (Some r) = PInt r"

definition update_ram :: "int option \<Rightarrow> launcher \<Rightarrow> launcher" where
  "update_ram ram s =
     save_config (s\<lparr>config := AList.update ''ram_allocation'' (ram_val ram) (config s)\<rparr>)"

section \<open>Launch history\<close>

definition history_entry :: "string \<Rightarrow> string \<Rightarrow> string \<Rightarrow> pyval" where
  "history_entry version username now =
     PDict [(''version'', PStr version), (''username'', PStr username),
            (''timestamp'', PStr now)]"

text \<open>
  \<open>add_launch_history\<close>; \<open>now\<close> is \<open>datetime.now().isoformat()\<close>. A configuration
  without the key raises \<open>KeyError\<close>, a value that is not a list has no \<open>insert\<close>.
  The history sent to the page holds the records built here and what \<open>json.load\<close>
  returned, so \<open>json.dumps\<close> meets no integer that it cannot render.
\<close>

definition add_launch_history ::
  "string \<Rightarrow> string \<Rightarrow> string \<Rightarrow> launcher \<Rightarrow> outcome \<times> launcher" where
  "add_launch_history version username now s =
     (case map_of (config s) ''launch_history'' of
        None \<Rightarrow>
          (Raised (Exn KeyError ([CHR 0x27] @ ''launch_history'' @ [CHR 0x27])), s)
      | Some (PList h) \<Rightarrow>
          (let h' = take 10 (history_entry version username now # h);
               s1 = save_config
                      (s\<lparr>config := AList.update ''launch_history'' (PList h') (config s)\<rparr>)
           in (Done,
               if window s1 then s1\<lparr>trace := trace s1 @ [Js (LoadHistory (PList h'))]\<rparr>
               else s1))
      | Some v \<Rightarrow>
          (Raised (Exn AttributeError
             ([CHR 0x27] @ type_name v @ [CHR 0x27]
              @ '' object has no attribute '' @ [CHR 0x27] @ ''insert'' @ [CHR 0x27])), s))"

text \<open>Successive calls of \<open>add_launch_history\<close>, one per (version, username, time).\<close>

fun add_launch_histories ::
  "(string \<times> string \<times> string) list \<Rightarrow> launcher \<Rightarrow> outcome \<times> launcher" where
  "add_launch_histories [] s = (Done, s)"
| "add_launch_histories ((v, u, t) # es) s =
     (case add_launch_history v u t s of
        (Done, s') \<Rightarrow> add_launch_histories es s'
      | (Raised e, s') \<Rightarrow> (Raised e, s'))"

definition entry_of :: "string \<times> string \<times> string \<Rightarrow> pyval" where
  "entry_of e = (case e of (v, u, t) \<Rightarrow> history_entry v u t)"

section \<open>Floating-point arithmetic\<close>

text \<open>
  Python's \<open>float\<close> is IEEE 754 binary64. A finite float is the rational it stands for;
  every operation returns the float nearest to the exact result, ties to the even
  mantissa. \<open>fl64 x\<close> is that nearest float: the mantissa has 53 bits, the exponent of
  its last bit is at least \<open>-1074\<close> (subnormal numbers), and a result of magnitude
  \<open>2 ^ 1024\<close> or more is an overflow, decided by the operation.
\<close>

function bit_length :: "nat \<Rightarrow> nat" where
  "bit_length n = (if n = 0 then 0 else Suc (bit_length (n div 2)))"
  by pat_completeness auto
termination
  by (relation "measure id") auto

declare bit_length.simps [simp del]

text \<open>\<open>floor_log2 x\<close> is the \<open>e\<close> with \<open>2 ^ e \<le> x < 2 ^ (e + 1)\<close>, for \<open>x > 0\<close>.\<close>

definition floor_log2 :: "rat \<Rightarrow> int" where
  "floor_log2 x =
     (if 1 \<le> x then int (bit_length (nat \<lfloor>x\<rfloor>)) - 1
      else - int (bit_length (nat (\<lceil>1 / x\<rceil> - 1))))"

definition round_half_even :: "rat \<Rightarrow> int" where
  "round_half_even x =
     (let f = \<lfloor>x\<rfloor>; d = x - of_int f
      in if d < 1 / 2 then f
         else if 1 / 2 < d then f + 1
         else if even f then f else f + 1)"

definition fl64 :: "rat \<Rightarrow> rat" where
  "fl64 x =
     (if x = 0 then 0
      else let e = max (floor_log2 \<bar>x\<bar> - 52) (- 1074)
           in of_int (round_half_even (x / 2 powi e)) * 2 powi e)"

text \<open>The largest float is just below \<open>2 ^ 1024\<close>; a rounded result from there on overflows.\<close>

definition overflows :: "rat \<Rightarrow> bool" where
  "overflows r \<longleftrightarrow> 2 ^ 1024 \<le> \<bar>r\<bar>"

datatype pyfloat = Finite rat | Infinite

text \<open>\<open>a / b\<close> on two integers: true division, rounded once.\<close>

definition int_truediv :: "int \<Rightarrow> int \<Rightarrow> exn + rat" where
  "int_truediv a b =
     (if b = 0 then Inl (Exn ZeroDivisionError ''division by zero'')
      else let r = fl64 (of_int a / of_int b)
           in if overflows r
              then Inl (Exn OverflowError ''integer division result too large for a float'')
              else Inr r)"

text \<open>\<open>x * y\<close> on two floats: an overflow gives infinity, no exception.\<close>

definition float_mul :: "rat \<Rightarrow> rat \<Rightarrow> pyfloat" where
  "float_mul x y = (let r = fl64 (x * y) in if overflows r then Infinite else Finite r)"

text \<open>\<open>int(x)\<close> of a float truncates towards zero.\<close>

definition int_of_float :: "pyfloat \<Rightarrow> exn + int" where
  "int_of_float x =
     (case x of
        Infinite \<Rightarrow> Inl (Exn OverflowError ''cannot convert float infinity to integer'')
      | Finite r \<Rightarrow> Inr (if 0 \<le> r then \<lfloor>r\<rfloor> else \<lceil>r\<rceil>))"

section \<open>Status and progress\<close>

definition set_status :: "string \<Rightarrow> launcher \<Rightarrow> launcher" where
  "set_status status s =
     (if window s then s\<lparr>trace := trace s @ [Js (UpdateStatus status)]\<rparr> else s)"

text \<open>
  \<open>set_progress\<close>: the value is stored first, so it is stored also when the
  computation of the percentage, \<open>int((current_progress / max_value) * 100)\<close>, raises,
  or when the f-string that renders the three integers for the page does.
\<close>

definition set_progress :: "int \<Rightarrow> launcher \<Rightarrow> outcome \<times> launcher" where
  "set_progress progress s =
     (let s1 = s\<lparr>current_progress := progress\<rparr>
      in if max_value s1 > 0 then
           (case int_truediv (current_progress s1) (max_value s1) of
              Inl e \<Rightarrow> (Raised e, s1)
            | Inr q \<Rightarrow>
                (case int_of_float (float_mul q 100) of
                   Inl e \<Rightarrow> (Raised e, s1)
                 | Inr percentage \<Rightarrow>
                     if window s1
                     then if too_long percentage \<or> too_long (current_progress s1)
                             \<or> too_long (max_value s1)
                          then (Raised value_error, s1)
                          else (Done,
                                s1\<lparr>trace := trace s1 @
                                  [Js (UpdateProgress percentage (current_progress s1)
                                         (max_value s1))]\<rparr>)
                     else (Done, s1)))
         else (Done, s1))"

definition set_max :: "int \<Rightarrow> launcher \<Rightarrow> launcher" where
  "set_max new_max s = s\<lparr>max_value := new_max\<rparr>"

section \<open>Installing and launching\<close>








text \<open>
  The request the page sends to \<open>launch\<close>: \<open>data.get\<close> gives \<open>None\<close> for a version or
  username that is absent or \<open>null\<close>; the RAM is absent (then 2), \<open>null\<close> or an integer.
\<close>

datatype ram_field = RamAbsent | RamNull | RamInt int

record request =
  req_version :: "string option"
  req_username :: "string option"
  req_ram :: ram_field

text \<open>\<open>not x\<close> for \<open>None\<close> or a string.\<close>

fun falsy :: "string option \<Rightarrow> bool" where
  "falsy None = True"
| "falsy (Some x) = (x = [])"

fun get_ram :: "ram_field \<Rightarrow> int option" where
  "get_ram RamAbsent = Some 2"
| "get_ram RamNull = None"
| "get_ram (RamInt r) = Some r"

text \<open>\<open>launch\<close>; the thread it starts runs \<open>install_and_launch\<close> later, on its own.\<close>

definition launch :: "request \<Rightarrow> launcher \<Rightarrow> launcher" where
  "launch data s =
     (let version = req_version data; username = req_username data;
          ram = get_ram (req_ram data)
      in if falsy version \<or> falsy username
         then set_status ''Please select a version and enter a username'' s
         else case (version, username) of
                (Some v, Some u) \<Rightarrow>
                  (let s1 = update_username u s; s2 = update_ram ram s1
                   in s2\<lparr>trace := trace s2 @ [ThreadStart v u ram]\<rparr>)
              | _ \<Rightarrow> s)"

section \<open>Reset and start\<close>

record result =
  success :: bool
  message :: string

text \<open>The body of the \<open>try\<close> of \<open>reset_launcher_data\<close>, up to the \<open>return\<close>.\<close>

definition reset_try :: "launcher \<Rightarrow> outcome \<times> launcher" where
  "reset_try s =
     (case config_file s of
        Some f \<Rightarrow>
          (case remove_error s of
             Some m \<Rightarrow> (Raised (Exn OSError m), s)
           | None \<Rightarrow>
               (let s1 = s\<lparr>config_file := None, trace := trace s @ [Removed]\<rparr>
                in (Done, s1\<lparr>config := load_config s1\<rparr>)))
      | None \<Rightarrow> (Done, s\<lparr>config := load_config s\<rparr>))"

definition reset_launcher_data :: "launcher \<Rightarrow> result \<times> launcher" where
  "reset_launcher_data s =
     (case reset_try s of
        (Done, s') \<Rightarrow>
          (\<lparr>success = True, message = ''Launcher data reset successfully!''\<rparr>, s')
      | (Raised e, s') \<Rightarrow>
          (\<lparr>success = False, message = ''Error: '' @ str_exn e\<rparr>, s'))"

text \<open>
  \<open>__init__\<close>, in a world with the given configuration file and file-system faults,
  and the main program, which stores the launcher directory and attaches the window.
\<close>

definition init :: "stored option \<Rightarrow> string option \<Rightarrow> string option \<Rightarrow> launcher" where
  "init f we re =
     (let s = \<lparr>window = False, max_value = 0, current_progress = 0, config = [],
               config_file = f, write_error = we, remove_error = re, trace = []\<rparr>
      in s\<lparr>config := load_config s\<rparr>)"

definition main :: "stored option \<Rightarrow> string option \<Rightarrow> string option \<Rightarrow> string \<Rightarrow> launcher" where
  "main f we re minecraft_directory =
     (let s = init f we re
      in s\<lparr>config := AList.update ''launcher_directory'' (PStr minecraft_directory) (config s),
           window := True\<rparr>)"

section \<open>Effects of one call\<close>






section \<open>Sample runs\<close>

text \<open>Eleven launches of the same version by the same player, at eleven times.\<close>

definition eleven :: "(string \<times> string \<times> string) list" where
  "eleven = map (\<lambda>t. (''1.20.1'', ''Notch'', t))
     [''t01'', ''t02'', ''t03'', ''t04'', ''t05'', ''t06'', ''t07'', ''t08'', ''t09'', ''t10'',
      ''t11'']"





section \<open>Properties\<close>

lemma config_save_config: "config (save_config s) = config s"
  by (simp add: save_config_def split: option.split)

lemma window_save_config: "window (save_config s) = window s"
  by (simp add: save_config_def split: option.split)

lemma add_launch_history_list:
  assumes "map_of (config s) ''launch_history'' = Some (PList h)"
  shows "fst (add_launch_history v u t s) = Done"
    and "map_of (config (snd (add_launch_history v u t s))) ''launch_history''
         = Some (PList (take 10 (history_entry v u t # h)))"
  using assms
  by (simp_all add: add_launch_history_def Let_def config_save_config AList.update_conv')

lemma add_launch_histories_foldl:
  "map_of (config s) ''launch_history'' = Some (PList h) \<Longrightarrow>
   fst (add_launch_histories es s) = Done \<and>
   map_of (config (snd (add_launch_histories es s))) ''launch_history''
     = Some (PList (foldl (\<lambda>h e. take 10 (entry_of e # h)) h es))"
proof (induction es arbitrary: s h)
  case Nil
  then show ?case by simp
next
  case (Cons e es)
  obtain v u t where e: "e = (v, u, t)" by (cases e) auto
  let ?s1 = "snd (add_launch_history v u t s)"
  let ?h1 = "take 10 (history_entry v u t # h)"
  have done1: "fst (add_launch_history v u t s) = Done"
    and hist1: "map_of (config ?s1) ''launch_history'' = Some (PList ?h1)"
    using add_launch_history_list [OF Cons.prems] by simp_all
  have step: "add_launch_histories (e # es) s = add_launch_histories es ?s1"
    using done1 by (cases "add_launch_history v u t s") (simp add: e)
  from Cons.IH [OF hist1] step show ?case by (simp add: e entry_of_def)
qed

lemma take_Cons_take: "0 < n \<Longrightarrow> take n (x # take n ys) = take n (x # ys)"
  by (cases n) (simp_all add: min_def)

lemma foldl_take_10:
  "es \<noteq> [] \<Longrightarrow>
   foldl (\<lambda>h e. take 10 (f e # h)) h es = take 10 (map f (rev es) @ h)"
proof (induction es rule: rev_induct)
  case Nil
  then show ?case by simp
next
  case (snoc e es)
  show ?case
  proof (cases "es = []")
    case True
    then show ?thesis by simp
  next
    case False
    have "foldl (\<lambda>h e. take 10 (f e # h)) h (es @ [e])
          = take 10 (f e # foldl (\<lambda>h e. take 10 (f e # h)) h es)"
      by simp
    also have "\<dots> = take 10 (f e # take 10 (map f (rev es) @ h))"
      using snoc.IH [OF False] by simp
    also have "\<dots> = take 10 (f e # map f (rev es) @ h)"
      by (rule take_Cons_take) simp
    finally show ?thesis by simp
  qed
qed

lemma map_of_dict_merge_distinct:
  "distinct (map fst b) \<Longrightarrow> map_of (dict_merge a b) = map_of a ++ map_of b"
  unfolding dict_merge_def
proof (induction b arbitrary: a)
  case Nil
  then show ?case by simp
next
  case (Cons p b)
  obtain k v where p: "p = (k, v)" by (cases p)
  from Cons.prems have k: "k \<notin> dom (map_of b)" and d: "distinct (map fst b)"
    by (auto simp: p dom_map_of_conv_image_fst)
  have "map_of (foldl (\<lambda>d (k, v). AList.update k v d) a (p # b))
        = (map_of a)(k \<mapsto> v) ++ map_of b"
    by (simp add: p Cons.IH [OF d] AList.update_conv' fun_upd_def)
  also have "\<dots> = map_of a ++ map_of (p # b)"
    using k by (simp add: p map_add_upd_left)
  finally show ?case .
qed

text \<open>
  C1. When the configuration file holds a JSON object, \<open>load_config\<close> returns the
  defaults overridden key by key by the stored object: every stored field keeps its
  stored value, every field the object lacks has its default value, and each of the six
  default fields is present.
\<close>

theorem load_config_merge:
  assumes "config_file s = Some (Json (PDict doc))"
    and "distinct (map fst doc)"
  shows "(\<forall>k v. map_of doc k = Some v \<longrightarrow> map_of (load_config s) k = Some v)
       \<and> (\<forall>k. map_of doc k = None \<longrightarrow> map_of (load_config s) k = map_of default_config k)
       \<and> (\<forall>k \<in> {''last_username'', ''ram_allocation'', ''theme'', ''dark_mode'',
                   ''tutorial_shown'', ''launch_history''}.
            map_of (load_config s) k \<noteq> None)"
proof -
  have l: "map_of (load_config s) = map_of default_config ++ map_of doc"
    using assms by (simp add: load_config_def map_of_dict_merge_distinct)
  have d: "\<forall>k \<in> {''last_username'', ''ram_allocation'', ''theme'', ''dark_mode'',
                   ''tutorial_shown'', ''launch_history''}. map_of default_config k \<noteq> None"
    by (simp add: default_config_def)
  show ?thesis
    unfolding l using d by (auto simp: map_add_def split: option.splits)
qed


theorem load_config_merge_witness:
  "config_file (init (Some (Json (PDict [(''theme'', PStr ''blue'')]))) None None)
     = Some (Json (PDict [(''theme'', PStr ''blue'')]))
   \<and> distinct (map fst [(''theme'', PStr ''blue'')])
   \<and> map_of (load_config (init (Some (Json (PDict [(''theme'', PStr ''blue'')]))) None None))
         ''theme'' = Some (PStr ''blue'')
   \<and> map_of (load_config (init (Some (Json (PDict [(''theme'', PStr ''blue'')]))) None None))
         ''ram_allocation'' = Some (PInt 2)"
proof -
  let ?doc = "[(''theme'', PStr ''blue'')]"
  let ?s = "init (Some (Json (PDict ?doc))) None None"
  have f: "config_file ?s = Some (Json (PDict ?doc))"
    by (simp add: init_def Let_def)
  have d: "distinct (map fst ?doc)"
    by simp
  have t: "map_of ?doc ''theme'' = Some (PStr ''blue'')"
    by simp
  have r: "map_of ?doc ''ram_allocation'' = None"
    by simp
  have r': "map_of default_config ''ram_allocation'' = Some (PInt 2)"
    by (simp add: default_config_def)
  note m = load_config_merge [OF f d]
  from m t have 1: "map_of (load_config ?s) ''theme'' = Some (PStr ''blue'')"
    by blast
  from m r have "map_of (load_config ?s) ''ram_allocation''
                 = map_of default_config ''ram_allocation''"
    by blast
  with r' have 2: "map_of (load_config ?s) ''ram_allocation'' = Some (PInt 2)"
    by simp
  from f d 1 2 show ?thesis
    by blast
qed

text \<open>
  C2. One call of \<open>add_launch_history\<close> puts the new entry in front and keeps the first
  ten elements. After eleven calls, whatever the history was before, the history is
  exactly the last ten entries added, newest first: the first of the eleven and all
  older entries are gone.
\<close>

theorem add_launch_history_eleven:
  assumes "map_of (config s) ''launch_history'' = Some (PList h)"
    and "length es = 11"
  shows "map_of (config (snd (add_launch_history v u t s))) ''launch_history''
           = Some (PList (take 10 (history_entry v u t # h)))
       \<and> fst (add_launch_histories es s) = Done
       \<and> map_of (config (snd (add_launch_histories es s))) ''launch_history''
           = Some (PList (map entry_of (rev (tl es))))
       \<and> length (map entry_of (rev (tl es))) = 10"
proof -
  from assms(2) obtain e es' where es: "es = e # es'" and l: "length es' = 10"
    by (cases es) auto
  have "es \<noteq> []"
    by (simp add: es)
  then have "foldl (\<lambda>h e. take 10 (entry_of e # h)) h es
             = take 10 (map entry_of (rev es) @ h)"
    by (rule foldl_take_10)
  also have "\<dots> = map entry_of (rev (tl es))"
    by (simp add: es l)
  finally have F: "foldl (\<lambda>h e. take 10 (entry_of e # h)) h es
                   = map entry_of (rev (tl es))" .
  have L: "length (map entry_of (rev (tl es))) = 10"
    by (simp add: es l)
  from add_launch_histories_foldl [OF assms(1), of es]
    add_launch_history_list(2) [OF assms(1), of v u t] L
  show ?thesis
    unfolding F by blast
qed

theorem add_launch_history_eleven_witness:
  "map_of (config (init None None None)) ''launch_history'' = Some (PList [])
   \<and> length eleven = 11
   \<and> fst (add_launch_histories eleven (init None None None)) = Done
   \<and> map_of (config (snd (add_launch_histories eleven (init None None None))))
         ''launch_history''
       = Some (PList (map (\<lambda>t. history_entry ''1.20.1'' ''Notch'' t)
           [''t11'', ''t10'', ''t09'', ''t08'', ''t07'', ''t06'', ''t05'', ''t04'', ''t03'',
            ''t02'']))"
proof -
  have h: "map_of (config (init None None None)) ''launch_history'' = Some (PList [])"
    by (simp add: init_def Let_def load_config_def default_config_def)
  have l: "length eleven = 11"
    by (simp add: eleven_def)
  have e: "map entry_of (rev (tl eleven))
           = map (\<lambda>t. history_entry ''1.20.1'' ''Notch'' t)
               [''t11'', ''t10'', ''t09'', ''t08'', ''t07'', ''t06'', ''t05'', ''t04'',
                ''t03'', ''t02'']"
    by (simp add: eleven_def entry_of_def)
  from add_launch_history_eleven [OF h l] h l show ?thesis
    unfolding e by blast
qed

subsection \<open>The limit on digits\<close>

text \<open>
  The text of a natural number has more than \<open>k\<close> digits exactly from \<open>10 ^ k\<close> on, so
  an integer is too long to render exactly when its magnitude reaches \<open>10 ^ 4300\<close>.
\<close>

lemma str_nat_small: "n < 10 \<Longrightarrow> str_nat n = [char_of (48 + n)]"
  by (simp add: str_nat.simps [of n])

lemma str_nat_large:
  "10 \<le> n \<Longrightarrow> str_nat n = str_nat (n div 10) @ [char_of (48 + n mod 10)]"
  by (simp add: str_nat.simps [of n])

lemma length_str_nat_pos: "0 < length (str_nat n)"
  by (cases "n < 10") (simp_all add: str_nat_small str_nat_large)

lemma length_str_nat_lower: "10 ^ k \<le> n \<Longrightarrow> k < length (str_nat n)"
proof (induction k arbitrary: n)
  case 0
  show ?case by (rule length_str_nat_pos)
next
  case (Suc k)
  from Suc.prems have "10 * 10 ^ k \<le> n" by simp
  then have d: "10 ^ k \<le> n div 10" by presburger
  have "(1::nat) \<le> 10 ^ k" by simp
  with \<open>10 * 10 ^ k \<le> n\<close> have "10 \<le> n" by linarith
  with Suc.IH [OF d] show ?case
    by (simp add: str_nat_large)
qed

lemma length_str_nat_upper: "n < 10 ^ Suc k \<Longrightarrow> length (str_nat n) \<le> Suc k"
proof (induction k arbitrary: n)
  case 0
  then show ?case by (simp add: str_nat_small)
next
  case (Suc k)
  show ?case
  proof (cases "n < 10")
    case True
    then show ?thesis by (simp add: str_nat_small)
  next
    case False
    from Suc.prems have "n < 10 * 10 ^ Suc k" by simp
    then have "n div 10 < 10 ^ Suc k" by presburger
    from Suc.IH [OF this] False show ?thesis
      by (simp add: str_nat_large)
  qed
qed

lemma too_long_iff: "too_long i \<longleftrightarrow> 10 ^ int_max_str_digits \<le> \<bar>i\<bar>"
proof -
  obtain k where k: "int_max_str_digits = Suc k"
    by (cases int_max_str_digits) (simp_all add: int_max_str_digits_def)
  have c: "(10 ^ int_max_str_digits \<le> nat \<bar>i\<bar>) = (10 ^ int_max_str_digits \<le> \<bar>i\<bar>)"
    by (simp add: le_nat_iff)
  show ?thesis
  proof (cases "10 ^ int_max_str_digits \<le> nat \<bar>i\<bar>")
    case True
    from length_str_nat_lower [OF this] True show ?thesis
      unfolding c [symmetric] by (simp add: too_long_def)
  next
    case False
    then have "nat \<bar>i\<bar> < 10 ^ Suc k"
      by (simp add: k)
    from length_str_nat_upper [OF this] False show ?thesis
      unfolding c [symmetric] by (simp add: too_long_def k)
  qed
qed

lemma short_enough: "\<bar>i\<bar> < 1000 \<Longrightarrow> \<not> too_long i"
proof -
  assume a: "\<bar>i\<bar> < 1000"
  have "(3::nat) \<le> int_max_str_digits"
    by (simp add: int_max_str_digits_def)
  then have "(10::int) ^ 3 \<le> 10 ^ int_max_str_digits"
    by (rule power_increasing) simp
  moreover have "(10::int) ^ 3 = 1000"
    by simp
  ultimately have "1000 \<le> (10::int) ^ int_max_str_digits"
    by (simp only:)
  with a show ?thesis
    unfolding too_long_iff by linarith
qed


lemma str_int_short: "\<bar>i\<bar> < 10 ^ int_max_str_digits \<Longrightarrow> str_int i = Inr (decimal i)"
  by (simp add: str_int_def too_long_iff)


subsection \<open>The rounding of floats\<close>

text \<open>
  \<open>floor_log2\<close> finds the binade of a positive number, \<open>round_half_even\<close> is within a
  half of its argument, and so \<open>fl64 x\<close> is within half a unit in the last place of
  \<open>x\<close>. The values of \<open>0.1\<close> and \<open>1 / 3\<close> and two ties are the ones Python prints
  with \<open>as_integer_ratio\<close>.
\<close>

lemma bit_length_0: "bit_length 0 = 0"
  by (simp add: bit_length.simps [of 0])

lemma bit_length_pos: "0 < n \<Longrightarrow> bit_length n = Suc (bit_length (n div 2))"
  by (simp add: bit_length.simps [of n])

lemma bit_length_bounds:
  "0 < n \<Longrightarrow> 2 ^ (bit_length n - 1) \<le> n \<and> n < 2 ^ bit_length n"
proof (induction n rule: bit_length.induct)
  case (1 n)
  note b = bit_length_pos [OF "1.prems"]
  show ?case
  proof (cases "n div 2 = 0")
    case True
    with "1.prems" have "n = 1" by presburger
    with True b show ?thesis
      by (simp add: bit_length_0)
  next
    case False
    then have p: "0 < n div 2" by simp
    from "1.prems" have "n \<noteq> 0" by simp
    from "1.IH" [OF this p]
    have ih: "2 ^ (bit_length (n div 2) - 1) \<le> n div 2"
      "n div 2 < 2 ^ bit_length (n div 2)"
      by simp_all
    from bit_length_pos [OF p] obtain j where k: "bit_length (n div 2) = Suc j"
      by simp
    define a :: nat where "a = 2 ^ j"
    from ih have "a \<le> n div 2" and "n div 2 < 2 * a"
      by (simp_all add: k a_def)
    then have "2 * a \<le> n \<and> n < 2 * (2 * a)"
      by presburger
    then show ?thesis
      by (simp add: b k a_def)
  qed
qed


lemma floor_log2_bounds:
  assumes "0 < x"
  shows "2 powi floor_log2 x \<le> x \<and> x < 2 powi (floor_log2 x + 1)"
proof (cases "1 \<le> x")
  case True
  define n where "n = nat \<lfloor>x\<rfloor>"
  from True have f: "1 \<le> \<lfloor>x\<rfloor>" by simp
  then have n: "0 < n" and nx: "of_nat n \<le> x" and xn: "x < of_nat n + 1"
    unfolding n_def by (simp_all, linarith+)
  from bit_length_pos [OF n] obtain j where k: "bit_length n = Suc j"
    by simp
  from bit_length_bounds [OF n] have "2 ^ j \<le> n" and "n + 1 \<le> 2 ^ Suc j"
    by (simp_all add: k)
  then have "(of_nat (2 ^ j) :: rat) \<le> of_nat n"
    and "(of_nat (n + 1) :: rat) \<le> of_nat (2 ^ Suc j)"
    by (simp_all only: of_nat_le_iff)
  then have "(2::rat) ^ j \<le> of_nat n" and "(of_nat n :: rat) + 1 \<le> 2 ^ Suc j"
    by simp_all
  with nx xn have "(2::rat) ^ j \<le> x" and "x < 2 ^ Suc j"
    by linarith+
  moreover have "floor_log2 x = int j"
    using True by (simp add: floor_log2_def k n_def [symmetric])
  moreover have "int j + 1 = int (Suc j)"
    by simp
  ultimately show ?thesis
    by (simp only: power_int_of_nat)
next
  case False
  define y where "y = 1 / x"
  define n where "n = nat (\<lceil>y\<rceil> - 1)"
  from False assms have y: "1 < y"
    by (simp add: y_def)
  then have c: "2 \<le> \<lceil>y\<rceil>" by linarith
  then have n: "0 < n" and ny: "of_nat n < y" and yn: "y \<le> of_nat n + 1"
    unfolding n_def by (simp_all, linarith+)
  from bit_length_pos [OF n] obtain j where k: "bit_length n = Suc j"
    by simp
  from bit_length_bounds [OF n] have "2 ^ j \<le> n" and "n + 1 \<le> 2 ^ Suc j"
    by (simp_all add: k)
  then have "(of_nat (2 ^ j) :: rat) \<le> of_nat n"
    and "(of_nat (n + 1) :: rat) \<le> of_nat (2 ^ Suc j)"
    by (simp_all only: of_nat_le_iff)
  then have "(2::rat) ^ j \<le> of_nat n" and "(of_nat n :: rat) + 1 \<le> 2 ^ Suc j"
    by simp_all
  with ny yn have 1: "(2::rat) ^ j < y" and 2: "y \<le> 2 ^ Suc j"
    by linarith+
  have x: "x = 1 / y"
    using assms by (simp add: y_def)
  have p: "(0::rat) < 2 ^ j" "(0::rat) < 2 ^ Suc j"
    by simp_all
  from 2 y p have a: "1 / 2 ^ Suc j \<le> x"
    unfolding x by (simp add: field_simps)
  from 1 y p have b: "x < 1 / 2 ^ j"
    unfolding x by (simp add: field_simps)
  have e: "floor_log2 x = - int (Suc j)"
    using False by (simp add: floor_log2_def k n_def [symmetric] y_def [symmetric])
  have "(2::rat) powi (- int (Suc j)) = 1 / 2 ^ Suc j"
    by (simp only: power_int_minus power_int_of_nat inverse_eq_divide)
  moreover have "- int (Suc j) + 1 = - int j"
    by simp
  then have "(2::rat) powi (- int (Suc j) + 1) = 1 / 2 ^ j"
    by (simp only: power_int_minus power_int_of_nat inverse_eq_divide)
  ultimately show ?thesis
    using a b unfolding e by (simp only:)
qed


lemma round_half_even_near: "\<bar>of_int (round_half_even x) - x\<bar> \<le> 1 / 2"
proof -
  have 1: "of_int \<lfloor>x\<rfloor> \<le> x" and 2: "x < of_int \<lfloor>x\<rfloor> + 1"
    by linarith+
  show ?thesis
  proof (cases "x - of_int \<lfloor>x\<rfloor> < 1 / 2")
    case True
    with 1 show ?thesis
      by (simp add: round_half_even_def Let_def abs_le_iff)
  next
    case False
    with 1 2 show ?thesis
      by (simp add: round_half_even_def Let_def abs_le_iff)
  qed
qed

lemma fl64_near:
  assumes "x \<noteq> 0"
  shows "\<bar>fl64 x - x\<bar> \<le> 2 powi (max (floor_log2 \<bar>x\<bar> - 52) (- 1074)) / 2"
proof -
  define u :: rat where "u = 2 powi (max (floor_log2 \<bar>x\<bar> - 52) (- 1074))"
  have u: "0 < u"
    by (simp add: u_def)
  have f: "fl64 x = of_int (round_half_even (x / u)) * u"
    using assms by (simp add: fl64_def Let_def u_def)
  have "fl64 x - x = (of_int (round_half_even (x / u)) - x / u) * u"
    using u by (simp add: f field_simps)
  then have "\<bar>fl64 x - x\<bar> = \<bar>of_int (round_half_even (x / u)) - x / u\<bar> * u"
    using u by (simp add: abs_mult)
  also have "\<dots> \<le> 1 / 2 * u"
    using round_half_even_near [of "x / u"] u by (rule mult_right_mono [OF _ less_imp_le])
  finally show ?thesis
    by (simp add: u_def)
qed

lemma fl64_tenth: "fl64 (1 / 10) = 3602879701896397 / 36028797018963968"
  by code_simp

lemma fl64_third: "fl64 (1 / 3) = 6004799503160661 / 18014398509481984"
  by code_simp

lemma fl64_ties_to_even:
  "fl64 (9007199254740993 / 9007199254740992) = 1
   \<and> fl64 (9007199254740995 / 9007199254740992) = 2251799813685249 / 2251799813685248"
  by code_simp

subsection \<open>Progress\<close>

lemma not_overflows: "\<bar>r\<bar> < 1024 \<Longrightarrow> \<not> overflows r"
proof -
  assume a: "\<bar>r\<bar> < 1024"
  have "(2::rat) ^ 10 \<le> 2 ^ 1024"
    by (rule power_increasing) simp_all
  moreover have "(1024::rat) = 2 ^ 10"
    by simp
  ultimately have "(1024::rat) \<le> 2 ^ 1024"
    by (simp only:)
  with a have "\<bar>r\<bar> < 2 ^ 1024"
    by (rule less_le_trans)
  then show ?thesis
    unfolding overflows_def by (simp only: not_le)
qed

lemma fl64_29_100: "fl64 (rat_of_int 29 / rat_of_int 100) = 5224175567749775 / 18014398509481984"
  by code_simp

lemma int_truediv_29_100: "int_truediv 29 100 = Inr (5224175567749775 / 18014398509481984)"
proof -
  have "\<not> overflows (5224175567749775 / 18014398509481984)"
    by (rule not_overflows) simp
  then show ?thesis
    unfolding int_truediv_def Let_def fl64_29_100 by simp
qed

lemma fl64_29_100_times:
  "fl64 (5224175567749775 / 18014398509481984 * 100) = 8162774324609023 / 281474976710656"
  by code_simp

lemma float_mul_29_100:
  "float_mul (5224175567749775 / 18014398509481984) 100
   = Finite (8162774324609023 / 281474976710656)"
proof -
  have "\<not> overflows (8162774324609023 / 281474976710656)"
    by (rule not_overflows) simp
  then show ?thesis
    unfolding float_mul_def Let_def fl64_29_100_times by simp
qed

lemma int_of_float_29_100:
  "int_of_float (Finite (8162774324609023 / 281474976710656)) = Inr 28"
  by code_simp


lemma fl64_25_50: "fl64 (rat_of_int 25 / rat_of_int 50) = 1 / 2"
  by code_simp

lemma int_truediv_25_50: "int_truediv 25 50 = Inr (1 / 2)"
proof -
  have "\<not> overflows (1 / 2)"
    by (rule not_overflows) simp
  then show ?thesis
    unfolding int_truediv_def Let_def fl64_25_50 by simp
qed

lemma fl64_25_50_times: "fl64 (1 / 2 * 100) = 50"
  by code_simp

lemma float_mul_25_50: "float_mul (1 / 2) 100 = Finite 50"
proof -
  have "\<not> overflows 50"
    by (rule not_overflows) simp
  then show ?thesis
    unfolding float_mul_def Let_def fl64_25_50_times by simp
qed

lemma int_of_float_50: "int_of_float (Finite 50) = Inr 50"
  by code_simp

lemma main_window: "window (main f we re d)"
  by (simp add: main_def init_def Let_def)

lemma main_trace: "trace (main f we re d) = []"
  by (simp add: main_def init_def Let_def)

lemma main_max_value: "max_value (main f we re d) = 0"
  by (simp add: main_def init_def Let_def)

lemma set_progress_25_of_50:
  "set_progress 25 (set_max 50 (main None None None ''dir''))
   = (Done, (main None None None ''dir'')
        \<lparr>max_value := 50, current_progress := 25,
         trace := [Js (UpdateProgress 50 25 50)]\<rparr>)"
  by (simp add: set_progress_def set_max_def Let_def int_truediv_25_50
      float_mul_25_50 int_of_float_50 main_window main_trace short_enough)

text \<open>
  C4. A launcher starts with maximum 0. While no positive maximum is recorded,
  \<open>set_progress\<close> returns normally, stores the value and does nothing else: the
  division is not reached and nothing is sent to the page.
\<close>

theorem set_progress_without_max:
  "max_value (init f we re) = 0
   \<and> (max_value s \<le> 0 \<longrightarrow> set_progress v s = (Done, s\<lparr>current_progress := v\<rparr>))"
  by (simp add: init_def set_progress_def Let_def)

theorem set_progress_without_max_witness:
  "max_value (main None None None ''dir'') \<le> 0
   \<and> set_progress 7 (main None None None ''dir'')
       = (Done, (main None None None ''dir'')\<lparr>current_progress := 7\<rparr>)
   \<and> trace (snd (set_progress 7 (main None None None ''dir''))) = []"
proof -
  have m: "max_value (main None None None ''dir'') \<le> 0"
    by (simp add: main_max_value)
  from set_progress_without_max [of None None None "main None None None ''dir''" 7] m
  have "set_progress 7 (main None None None ''dir'')
       = (Done, (main None None None ''dir'')\<lparr>current_progress := 7\<rparr>)"
    by blast
  with m show ?thesis
    by (simp add: main_trace)
qed

text \<open>
  C5. With maximum 100, \<open>set_progress 29\<close> sends the percentage 28, although
  \<open>floor (29 / 100 * 100) = 29\<close>: the quotient \<open>29 / 100\<close> is rounded to a float below
  0.29, its product with 100 is rounded to the float just below 29, and \<open>int\<close>
  truncates.
\<close>

theorem set_progress_29_of_100:
  "set_progress 29 (set_max 100 (main None None None ''dir''))
   = (Done, (main None None None ''dir'')
        \<lparr>max_value := 100, current_progress := 29,
         trace := [Js (UpdateProgress 28 29 100)]\<rparr>)
   \<and> \<lfloor>(29 :: rat) / 100 * 100\<rfloor> = 29"
  by (simp add: set_progress_def set_max_def Let_def int_truediv_29_100
      float_mul_29_100 int_of_float_29_100 main_window main_trace short_enough)

text \<open>
  C10. \<open>set_progress\<close> always stores its argument, and its result does not depend on
  the value stored before. So a call that was dropped for lack of a positive maximum
  leaves no mark on a later call made after \<open>set_max\<close>.
\<close>

theorem set_progress_records:
  "current_progress (snd (set_progress v s)) = v
   \<and> set_progress v (s\<lparr>current_progress := c\<rparr>) = set_progress v s
   \<and> (max_value s \<le> 0 \<longrightarrow>
        set_progress v2 (set_max m (snd (set_progress v1 s))) = set_progress v2 (set_max m s))"
  by (simp add: set_progress_def set_max_def Let_def split: sum.splits)

theorem set_progress_records_witness:
  "max_value (main None None None ''dir'') \<le> 0
   \<and> current_progress (snd (set_progress 5 (main None None None ''dir''))) = 5
   \<and> set_progress 25 (set_max 50 (snd (set_progress 5 (main None None None ''dir''))))
       = (Done, (main None None None ''dir'')
            \<lparr>max_value := 50, current_progress := 25,
             trace := [Js (UpdateProgress 50 25 50)]\<rparr>)"
proof -
  have m: "max_value (main None None None ''dir'') \<le> 0"
    by (simp add: main_max_value)
  from set_progress_records [of 5 "main None None None ''dir''" 0 25 50 5] m
  show ?thesis
    by (simp add: set_progress_25_of_50)
qed


text \<open>
  C3. When the version or the username of the request is absent, \<open>null\<close> or empty,
  \<open>launch\<close> only sends the validation message to the page (when a window is attached)
  and returns: the configuration in memory and on disk, the progress fields and the
  rest of the trace are as before, so nothing was written, no thread was started and no
  history entry was added.
\<close>

theorem launch_rejects_empty:
  assumes "req_version data = None \<or> req_version data = Some []
         \<or> req_username data = None \<or> req_username data = Some []"
  shows "launch data s
         = s\<lparr>trace := trace s @
              (if window s
               then [Js (UpdateStatus ''Please select a version and enter a username'')]
               else [])\<rparr>"
proof -
  from assms have "falsy (req_version data) \<or> falsy (req_username data)"
    by auto
  then show ?thesis
    by (simp add: launch_def Let_def set_status_def)
qed

theorem launch_rejects_empty_witness:
  "req_version \<lparr>req_version = Some [], req_username = Some ''Notch'', req_ram = RamInt 2\<rparr>
     = Some []
   \<and> launch \<lparr>req_version = Some [], req_username = Some ''Notch'', req_ram = RamInt 2\<rparr>
        (main None None None ''dir'')
       = (main None None None ''dir'')
           \<lparr>trace := [Js (UpdateStatus ''Please select a version and enter a username'')]\<rparr>"
proof -
  let ?d = "\<lparr>req_version = Some [], req_username = Some ''Notch'', req_ram = RamInt 2\<rparr>"
  have v: "req_version ?d = Some []"
    by simp
  then have "req_version ?d = None \<or> req_version ?d = Some []
           \<or> req_username ?d = None \<or> req_username ?d = Some []"
    by blast
  from launch_rejects_empty [OF this, of "main None None None ''dir''"] v
  show ?thesis
    by (simp add: main_window main_trace)
qed

lemma main_config_file: "config_file (main f we re d) = f"
  by (simp add: main_def init_def Let_def)

lemma main_remove_error: "remove_error (main f we re d) = re"
  by (simp add: main_def init_def Let_def)

text \<open>
  C7. \<open>reset_launcher_data\<close> always returns a result with \<open>success\<close> and \<open>message\<close>.
  When the file is absent or can be removed, the result reports success, the file is
  gone and the configuration in memory is exactly the defaults. When removing the file
  raises, the result reports the failure with the text of the error and nothing has
  changed.
\<close>

theorem reset_launcher_data_result:
  "(config_file s = None \<or> remove_error s = None \<longrightarrow>
      fst (reset_launcher_data s)
        = \<lparr>success = True, message = ''Launcher data reset successfully!''\<rparr>
      \<and> config_file (snd (reset_launcher_data s)) = None
      \<and> config (snd (reset_launcher_data s)) = default_config)
   \<and> (config_file s \<noteq> None \<and> remove_error s = Some m \<longrightarrow>
      reset_launcher_data s = (\<lparr>success = False, message = ''Error: '' @ m\<rparr>, s))"
  by (auto simp: reset_launcher_data_def reset_try_def load_config_def Let_def
      split: option.splits)

theorem reset_launcher_data_result_witness:
  "remove_error (main (Some (Json (PDict [(''theme'', PStr ''blue'')]))) None None ''dir'') = None
   \<and> fst (reset_launcher_data
            (main (Some (Json (PDict [(''theme'', PStr ''blue'')]))) None None ''dir''))
       = \<lparr>success = True, message = ''Launcher data reset successfully!''\<rparr>
   \<and> config_file (snd (reset_launcher_data
            (main (Some (Json (PDict [(''theme'', PStr ''blue'')]))) None None ''dir''))) = None
   \<and> config (snd (reset_launcher_data
            (main (Some (Json (PDict [(''theme'', PStr ''blue'')]))) None None ''dir'')))
       = default_config
   \<and> config_file (main (Some Unloadable) None (Some ''Permission denied'') ''dir'') \<noteq> None
   \<and> remove_error (main (Some Unloadable) None (Some ''Permission denied'') ''dir'')
       = Some ''Permission denied''
   \<and> reset_launcher_data (main (Some Unloadable) None (Some ''Permission denied'') ''dir'')
       = (\<lparr>success = False, message = ''Error: Permission denied''\<rparr>,
          main (Some Unloadable) None (Some ''Permission denied'') ''dir'')"
proof -
  let ?a = "main (Some (Json (PDict [(''theme'', PStr ''blue'')]))) None None ''dir''"
  let ?b = "main (Some Unloadable) None (Some ''Permission denied'') ''dir''"
  have a: "remove_error ?a = None"
    by (simp add: main_remove_error)
  have b1: "config_file ?b \<noteq> None"
    by (simp add: main_config_file)
  have b2: "remove_error ?b = Some ''Permission denied''"
    by (simp add: main_remove_error)
  from reset_launcher_data_result [of ?a] a
  have 1: "fst (reset_launcher_data ?a)
             = \<lparr>success = True, message = ''Launcher data reset successfully!''\<rparr>
           \<and> config_file (snd (reset_launcher_data ?a)) = None
           \<and> config (snd (reset_launcher_data ?a)) = default_config"
    by blast
  from reset_launcher_data_result [of ?b "''Permission denied''"] b1 b2
  have 2: "reset_launcher_data ?b
           = (\<lparr>success = False, message = ''Error: '' @ ''Permission denied''\<rparr>, ?b)"
    by blast
  from 1 2 a b1 b2 show ?thesis
    by simp
qed

















lemma set_status_grows: "\<exists>tr. trace (set_status m s) = trace s @ tr"
  by (simp add: set_status_def)































end
